theory Spec2Isabelle
  imports Complex_Main
begin

section \<open>Data model of the smart edge component\<close>

text \<open>
  The component \<open>PathFindingEdge\<close> exists in two copies: \<open>src/SmartEdge/PathFindingEdge.tsx\<close>
  and a second, unnamed file that adds a label overlay placed at the centre of a bezier
  curve. Both destructure the same props, call the same imported functions and take the
  same branch on the length of the smoothed path.

  Canvas coordinates are JavaScript numbers and are modelled as reals; grid cells are the
  two-element arrays \<open>[x, y]\<close> of a path and are modelled as pairs of integers.
\<close>

datatype Position = Left | Top | Right | Bottom

type_synonym GridCell = "int \<times> int"

text \<open>\<open>PointInfo\<close> is \<open>{ x, y, position }\<close>; the fields carry a prefix here.\<close>

record PointInfo =
  point_x :: real
  point_y :: real
  point_position :: "Position option"

text \<open>The bounding box of the graph; the component reads \<open>graph.xMin\<close> and \<open>graph.yMin\<close>.\<close>

record GraphBox =
  xMin :: real
  yMin :: real
  xMax :: real
  yMax :: real

text \<open>The value a \<open>PathFindingFunction\<close> returns: \<open>{ fullPath, smoothedPath }\<close>.\<close>

record PathFindingResult =
  fullPath :: "GridCell list"
  smoothedPath :: "GridCell list"

text \<open>
  \<open>SmartEdgeAdvancedOptions\<close>. The field \<open>fallback\<close> is a host component; rendering it is
  the constructor \<open>FallbackEdge\<close> of the element type below, so it is not a field here.
\<close>

record ('grid, 'svg) SmartEdgeAdvancedOptions =
  debounceTime :: real
  nodePadding :: real
  gridRatio :: real
  drawEdge :: "PointInfo \<Rightarrow> PointInfo \<Rightarrow> (real \<times> real) list \<Rightarrow> 'svg"
  generatePath :: "'grid \<Rightarrow> GridCell \<Rightarrow> GridCell \<Rightarrow> PathFindingResult"

text \<open>
  \<open>PathFindingEdgeProps\<close>, with the props the component reads. Values that are only handed
  on to the host (\<open>style\<close>, \<open>label\<close>, the markers) have the opaque type \<open>'a\<close>.
\<close>

record ('a, 'node, 'grid, 'svg) PathFindingEdgeProps =
  sourceX :: real
  sourceY :: real
  sourcePosition :: "Position option"
  targetX :: real
  targetY :: real
  targetPosition :: "Position option"
  style :: 'a
  storeNodes :: "'node list"
  label :: 'a
  markerEnd :: 'a
  markerStart :: 'a
  options :: "('grid, 'svg) SmartEdgeAdvancedOptions"

text \<open>
  The functions imported from \<open>'../functions'\<close>. Their bodies are not part of the
  component, which only calls them, so they are parameters of the model. The component has
  no \<open>try\<close>: a call that throws aborts the render before anything below is reached, and
  the model covers the calls that return, as their signatures say they do.
\<close>

record ('node, 'boxes, 'grid) Functions =
  getBoundingBoxes :: "'node list \<Rightarrow> real \<Rightarrow> real \<Rightarrow> GraphBox \<times> 'boxes"
  createGrid :: "GraphBox \<Rightarrow> 'boxes \<Rightarrow> PointInfo \<Rightarrow> PointInfo \<Rightarrow> real \<Rightarrow> 'grid \<times> GridCell \<times> GridCell"
  gridToGraphPoint :: "GridCell \<Rightarrow> real \<Rightarrow> real \<Rightarrow> real \<Rightarrow> real \<times> real"

text \<open>What the component renders.\<close>

record ('a, 'svg) PathElement =
  path_style :: 'a
  path_className :: string
  path_d :: 'svg
  path_markerEnd :: 'a
  path_markerStart :: 'a

record 'a ForeignObject =
  fo_width :: real
  fo_height :: real
  fo_x :: real
  fo_y :: real
  fo_body :: 'a

datatype ('props, 'a, 'svg) Element =
    FallbackEdge 'props
  | Fragment "('a, 'svg) PathElement" "'a ForeignObject option"

text \<open>
  Destructuring \<open>fullPath[i]\<close> when the index is out of range destructures \<open>undefined\<close>,
  which throws a \<open>TypeError\<close>.
\<close>

datatype error = TypeError

section \<open>The component\<close>

text \<open>The source and target \<open>PointInfo\<close> built from the props.\<close>

definition source :: "('a, 'node, 'grid, 'svg) PathFindingEdgeProps \<Rightarrow> PointInfo" where
  "source props =
     \<lparr>point_x = sourceX props, point_y = sourceY props, point_position = sourcePosition props\<rparr>"

definition target :: "('a, 'node, 'grid, 'svg) PathFindingEdgeProps \<Rightarrow> PointInfo" where
  "target props =
     \<lparr>point_x = targetX props, point_y = targetY props, point_position = targetPosition props\<rparr>"

text \<open>
  The routing computation shared by both copies, up to the call of \<open>generatePath\<close>:
  bounding boxes, grid, start and end cell, path search.
\<close>

definition routing ::
  "('node, 'boxes, 'grid) Functions \<Rightarrow> ('a, 'node, 'grid, 'svg) PathFindingEdgeProps \<Rightarrow>
     GraphBox \<times> PathFindingResult" where
  "routing fns props =
     (let roundCoordinatesTo = gridRatio (options props);
          (graph, nodes) =
             getBoundingBoxes fns (storeNodes props) (nodePadding (options props)) roundCoordinatesTo;
          (grid, startCell, endCell) =
             createGrid fns graph nodes (source props) (target props) (gridRatio (options props))
      in (graph, generatePath (options props) grid startCell endCell))"

text \<open>The grid path converted to graph coordinates.\<close>

definition graphPath ::
  "('node, 'boxes, 'grid) Functions \<Rightarrow> GraphBox \<Rightarrow> real \<Rightarrow> GridCell list \<Rightarrow> (real \<times> real) list" where
  "graphPath fns graph ratio smoothed =
     map (\<lambda>gridPoint. gridToGraphPoint fns gridPoint (xMin graph) (yMin graph) ratio) smoothed"

text \<open>
  \<open>fullPath[Math.floor(fullPath.length / 2)]\<close>, destructured into two numbers: the cell in
  the middle of the path, or a \<open>TypeError\<close> when the index is out of range.
\<close>

definition middle :: "GridCell list \<Rightarrow> error + GridCell" where
  "middle full =
     (if length full div 2 < length full then Inr (full ! (length full div 2)) else Inl TypeError)"

text \<open>
  \<open>PathFindingEdge\<close> of \<open>src/SmartEdge/PathFindingEdge.tsx\<close>. The results of the host's
  \<open>getSmoothStepPath\<close> and \<open>getEdgeCenter\<close> are not used and are left out. The label
  position is computed from the middle cell but the label element is not part of the
  returned fragment; the access that can throw is kept.
\<close>

definition PathFindingEdge ::
  "('node, 'boxes, 'grid) Functions \<Rightarrow> ('a, 'node, 'grid, 'svg) PathFindingEdgeProps \<Rightarrow>
     error + (('a, 'node, 'grid, 'svg) PathFindingEdgeProps, 'a, 'svg) Element" where
  "PathFindingEdge fns props =
     (let (graph, result) = routing fns props
      in if length (smoothedPath result) \<le> 2 then Inr (FallbackEdge props)
         else
           let svgPathString =
                 drawEdge (options props) (source props) (target props)
                   (graphPath fns graph (gridRatio (options props)) (smoothedPath result))
           in case middle (fullPath result) of
                Inl e \<Rightarrow> Inl e
              | Inr (middleX, middleY) \<Rightarrow>
                  Inr (Fragment
                         \<lparr>path_style = style props, path_className = ''react-flow__edge-path'',
                          path_d = svgPathString, path_markerEnd = markerEnd props,
                          path_markerStart = markerStart props\<rparr>
                         None))"

text \<open>
  The helpers of the second copy, which places a label overlay at the point \<open>t = 0.5\<close> of
  a cubic bezier curve between the two connection points.
\<close>

definition calculateControlOffset :: "real \<Rightarrow> real \<Rightarrow> real" where
  "calculateControlOffset distance curvature =
     (if distance \<ge> 0 then 0.5 * distance else curvature * 25 * sqrt (- distance))"

fun getControlWithCurvature :: "Position \<Rightarrow> real \<Rightarrow> real \<Rightarrow> real \<Rightarrow> real \<Rightarrow> real \<Rightarrow> real \<times> real" where
  "getControlWithCurvature Left x1 y1 x2 y2 c = (x1 - calculateControlOffset (x1 - x2) c, y1)"
| "getControlWithCurvature Right x1 y1 x2 y2 c = (x1 + calculateControlOffset (x2 - x1) c, y1)"
| "getControlWithCurvature Top x1 y1 x2 y2 c = (x1, y1 - calculateControlOffset (y1 - y2) c)"
| "getControlWithCurvature Bottom x1 y1 x2 y2 c = (x1, y1 + calculateControlOffset (y2 - y1) c)"

text \<open>
  \<open>getBezierCenter\<close> is called without a curvature, so the default \<open>0.25\<close> applies; a
  missing position defaults to \<open>Bottom\<close> for the source and \<open>Top\<close> for the target.
\<close>

definition getBezierCenter ::
  "real \<Rightarrow> real \<Rightarrow> Position option \<Rightarrow> real \<Rightarrow> real \<Rightarrow> Position option \<Rightarrow> real \<times> real \<times> real \<times> real" where
  "getBezierCenter sX sY sPos tX tY tPos =
     (let curvature = 0.25;
          (sourceControlX, sourceControlY) =
             getControlWithCurvature (case sPos of None \<Rightarrow> Bottom | Some p \<Rightarrow> p) sX sY tX tY curvature;
          (targetControlX, targetControlY) =
             getControlWithCurvature (case tPos of None \<Rightarrow> Top | Some p \<Rightarrow> p) tX tY sX sY curvature;
          centerX = sX * 0.125 + sourceControlX * 0.375 + targetControlX * 0.375 + tX * 0.125;
          centerY = sY * 0.125 + sourceControlY * 0.375 + targetControlY * 0.375 + tY * 0.125;
          xOffset = \<bar>centerX - sX\<bar>;
          yOffset = \<bar>centerY - sY\<bar>
      in (centerX, centerY, xOffset, yOffset))"

text \<open>
  \<open>PathFindingEdge\<close> of the second copy: the same routing and the same branch, and a
  \<open>foreignObject\<close> of width 125 and height 50 (the state \<open>calculatedObjectHeight\<close> is never
  set) next to the path.
\<close>

definition PathFindingEdge_overlay ::
  "('node, 'boxes, 'grid) Functions \<Rightarrow> ('a, 'node, 'grid, 'svg) PathFindingEdgeProps \<Rightarrow>
     error + (('a, 'node, 'grid, 'svg) PathFindingEdgeProps, 'a, 'svg) Element" where
  "PathFindingEdge_overlay fns props =
     (let foreignObjectWidth = 125;
          calculatedObjectHeight = 50;
          (centerX, centerY, osX, osY) =
             getBezierCenter (sourceX props) (sourceY props) (sourcePosition props)
               (targetX props) (targetY props) (targetPosition props);
          (graph, result) = routing fns props
      in if length (smoothedPath result) \<le> 2 then Inr (FallbackEdge props)
         else
           let svgPathString =
                 drawEdge (options props) (source props) (target props)
                   (graphPath fns graph (gridRatio (options props)) (smoothedPath result))
           in case middle (fullPath result) of
                Inl e \<Rightarrow> Inl e
              | Inr (middleX, middleY) \<Rightarrow>
                  Inr (Fragment
                         \<lparr>path_style = style props, path_className = ''react-flow__edge-path'',
                          path_d = svgPathString, path_markerEnd = markerEnd props,
                          path_markerStart = markerStart props\<rparr>
                         (Some \<lparr>fo_width = foreignObjectWidth, fo_height = calculatedObjectHeight,
                                fo_x = centerX - foreignObjectWidth,
                                fo_y = centerY - calculatedObjectHeight, fo_body = label props\<rparr>)))"

section \<open>Sample inputs\<close>

text \<open>
  Inputs on which the component is run below: a bounding-box function that returns a
  100 by 100 canvas at the origin, a grid builder that returns fixed start and end cells,
  and a mapper that scales a cell by the grid ratio. The props put the source connection
  point at (3, 4) on the right side of its node and the target at (25, 14) on the left
  side, with a grid ratio of 10; \<open>drawEdge\<close> returns the list of points it would draw
  through, and the path finder returns the result \<open>r\<close> it is given.
\<close>

definition sample_functions :: "(unit, unit, unit) Functions" where
  "sample_functions =
     \<lparr>getBoundingBoxes =
        (\<lambda>nodes padding ratio. (\<lparr>xMin = 0, yMin = 0, xMax = 100, yMax = 100\<rparr>, ())),
      createGrid = (\<lambda>graph nodes s t ratio. ((), (0, 0), (2, 1))),
      gridToGraphPoint =
        (\<lambda>(cx, cy) originX originY ratio.
           (real_of_int cx * ratio + originX, real_of_int cy * ratio + originY))\<rparr>"

definition sample_props ::
  "PathFindingResult \<Rightarrow> (unit, unit, unit, (real \<times> real) list) PathFindingEdgeProps" where
  "sample_props r =
     \<lparr>sourceX = 3, sourceY = 4, sourcePosition = Some Right,
      targetX = 25, targetY = 14, targetPosition = Some Left,
      style = (), storeNodes = [], label = (), markerEnd = (), markerStart = (),
      options =
        \<lparr>debounceTime = 200, nodePadding = 10, gridRatio = 10,
         drawEdge = (\<lambda>s t waypoints. (point_x s, point_y s) # waypoints @ [(point_x t, point_y t)]),
         generatePath = (\<lambda>grid startCell endCell. r)\<rparr>\<rparr>"

section \<open>The coordinate mapper and the smoothing step, as the specification describes them\<close>

text \<open>
  Modelled from the spec: the conversion of a canvas point to a grid cell, which the
  component does not contain (it lives in the grid builder behind \<open>createGrid\<close>). The
  specification gives it as \<open>GridCell = round((CanvasPoint - gridOrigin) / gridRatio)\<close>, and
  calls it \<open>pointToCell\<close>. Rounding is to the nearest integer, halves upwards.
\<close>

definition pointToCell :: "real \<times> real \<Rightarrow> real \<Rightarrow> real \<Rightarrow> real \<Rightarrow> GridCell" where
  "pointToCell p originX originY ratio =
     (round ((fst p - originX) / ratio), round ((snd p - originY) / ratio))"

text \<open>
  Modelled from the spec: the body of \<open>gridToGraphPoint(cell, xMin, yMin, gridRatio)\<close>, which
  the component imports and calls but does not contain. The specification defines it as the
  exact inverse of the rounding above and also calls it \<open>cellToPoint\<close>.
\<close>

definition cellToPoint :: "GridCell \<Rightarrow> real \<Rightarrow> real \<Rightarrow> real \<Rightarrow> real \<times> real" where
  "cellToPoint c originX originY ratio =
     (originX + of_int (fst c) * ratio, originY + of_int (snd c) * ratio)"

text \<open>The distance between two canvas points.\<close>

definition distance :: "real \<times> real \<Rightarrow> real \<times> real \<Rightarrow> real" where
  "distance p q = sqrt ((fst p - fst q)\<^sup>2 + (snd p - snd q)\<^sup>2)"

text \<open>
  Three cells are collinear when they lie on one line: the cross product of the step from
  the first to the second and the step from the second to the third is zero.
\<close>

definition collinear :: "GridCell \<Rightarrow> GridCell \<Rightarrow> GridCell \<Rightarrow> bool" where
  "collinear a b c = ((fst b - fst a) * (snd c - snd b) = (snd b - snd a) * (fst c - fst b))"

text \<open>
  Modelled from the spec: the smoothing step of the path search, which is not part of the
  component (the path finder is passed in through the options). The specification says:
  collapse maximal runs of collinear consecutive cells in \<open>fullPath\<close> into their two
  endpoints, producing \<open>smoothedPath\<close>. \<open>compress prev cur rest\<close> walks the path with the
  previous and the current cell at hand and drops the current cell when it lies on the line
  from the previous to the next one.
\<close>

fun compress :: "GridCell \<Rightarrow> GridCell \<Rightarrow> GridCell list \<Rightarrow> GridCell list" where
  "compress prev cur [] = [cur]"
| "compress prev cur (nxt # rest) =
     (if collinear prev cur nxt then compress cur nxt rest else cur # compress cur nxt rest)"

fun smoothing :: "GridCell list \<Rightarrow> GridCell list" where
  "smoothing [] = []"
| "smoothing [a] = [a]"
| "smoothing (a # b # rest) = a # compress a b rest"

text \<open>
  Position \<open>i\<close> of a path is a turn when it is an inner position and the cells before, at
  and after it are not collinear. The positions a smoothed path has to keep are the first
  one, the last one and the turns: the endpoints of the maximal collinear runs.
\<close>

definition turn :: "GridCell list \<Rightarrow> nat \<Rightarrow> bool" where
  "turn p i = (0 < i \<and> Suc i < length p \<and> \<not> collinear (p ! (i - 1)) (p ! i) (p ! Suc i))"

definition run_endpoints :: "GridCell list \<Rightarrow> nat set" where
  "run_endpoints p = {i. i = 0 \<or> Suc i = length p \<or> turn p i}"

section \<open>Facts about the component\<close>

lemma routing_sample:
  "routing sample_functions (sample_props r) =
     (\<lparr>xMin = 0, yMin = 0, xMax = 100, yMax = 100\<rparr>, r)"
  by (simp add: routing_def sample_functions_def sample_props_def)

lemma div2_less_iff: "(length full div 2 < length full) = (full \<noteq> [])"
  by (cases full) auto

text \<open>
  C1. The choice between the fallback edge and the routed curve depends on the length of
  the smoothed path alone: both copies of the component render the fallback edge, with the
  props they were given, if and only if that length is at most 2. Nothing else about the
  grid, the cells or the geometry enters the decision.
\<close>

theorem fallback_iff_length:
  fixes fns :: "('node, 'boxes, 'grid) Functions"
    and props :: "('a, 'node, 'grid, 'svg) PathFindingEdgeProps"
  assumes "routing fns props = (graph, result)"
  shows "((\<exists>p. PathFindingEdge fns props = Inr (FallbackEdge p)) =
            (length (smoothedPath result) \<le> 2)) \<and>
         (length (smoothedPath result) \<le> 2 \<longrightarrow>
            PathFindingEdge fns props = Inr (FallbackEdge props)) \<and>
         ((\<exists>p. PathFindingEdge_overlay fns props = Inr (FallbackEdge p)) =
            (length (smoothedPath result) \<le> 2)) \<and>
         (length (smoothedPath result) \<le> 2 \<longrightarrow>
            PathFindingEdge_overlay fns props = Inr (FallbackEdge props))"
  using assms unfolding PathFindingEdge_def PathFindingEdge_overlay_def
  by (auto simp: Let_def split: prod.splits sum.splits)

theorem fallback_iff_length_witness:
  "PathFindingEdge sample_functions
     (sample_props \<lparr>fullPath = [(0, 0), (1, 0), (2, 1)], smoothedPath = [(0, 0), (2, 1)]\<rparr>)
     = Inr (FallbackEdge
         (sample_props \<lparr>fullPath = [(0, 0), (1, 0), (2, 1)], smoothedPath = [(0, 0), (2, 1)]\<rparr>)) \<and>
   \<not> (\<exists>p. PathFindingEdge sample_functions
            (sample_props
               \<lparr>fullPath = [(0, 0), (1, 0), (1, 1)], smoothedPath = [(0, 0), (1, 0), (1, 1)]\<rparr>)
          = Inr (FallbackEdge p))"
  using fallback_iff_length [OF routing_sample,
          of "\<lparr>fullPath = [(0, 0), (1, 0), (2, 1)], smoothedPath = [(0, 0), (2, 1)]\<rparr>"]
        fallback_iff_length [OF routing_sample,
          of "\<lparr>fullPath = [(0, 0), (1, 0), (1, 1)], smoothedPath = [(0, 0), (1, 0), (1, 1)]\<rparr>"]
  by simp

text \<open>
  C10. In the routed branch both copies call \<open>drawEdge\<close> with the source point
  \<open>{sourceX, sourceY, sourcePosition}\<close> and the target point
  \<open>{targetX, targetY, targetPosition}\<close> exactly as the props give them; only the waypoints
  in between come from the grid, each smoothed cell mapped by \<open>gridToGraphPoint\<close> with the
  graph's \<open>xMin\<close>, \<open>yMin\<close> and the grid ratio. The result of that call is the \<open>d\<close> of the
  path that each copy renders: the first copy renders the path alone, the second copy the
  path and its label overlay. The statement holds for every \<open>drawEdge\<close>, in particular for
  one that returns its arguments.
\<close>

theorem drawEdge_gets_connection_points:
  fixes fns :: "('node, 'boxes, 'grid) Functions"
    and props :: "('a, 'node, 'grid, 'svg) PathFindingEdgeProps"
  assumes "routing fns props = (graph, result)"
    and "2 < length (smoothedPath result)"
    and "fullPath result \<noteq> []"
  shows "PathFindingEdge fns props =
           Inr (Fragment
                  \<lparr>path_style = style props, path_className = ''react-flow__edge-path'',
                   path_d =
                     drawEdge (options props)
                       \<lparr>point_x = sourceX props, point_y = sourceY props,
                        point_position = sourcePosition props\<rparr>
                       \<lparr>point_x = targetX props, point_y = targetY props,
                        point_position = targetPosition props\<rparr>
                       (map (\<lambda>cell. gridToGraphPoint fns cell (xMin graph) (yMin graph)
                                      (gridRatio (options props)))
                            (smoothedPath result)),
                   path_markerEnd = markerEnd props, path_markerStart = markerStart props\<rparr>
                  None) \<and>
         (\<exists>overlay.
            PathFindingEdge_overlay fns props =
              Inr (Fragment
                     \<lparr>path_style = style props, path_className = ''react-flow__edge-path'',
                      path_d =
                        drawEdge (options props)
                          \<lparr>point_x = sourceX props, point_y = sourceY props,
                           point_position = sourcePosition props\<rparr>
                          \<lparr>point_x = targetX props, point_y = targetY props,
                           point_position = targetPosition props\<rparr>
                          (map (\<lambda>cell. gridToGraphPoint fns cell (xMin graph) (yMin graph)
                                         (gridRatio (options props)))
                               (smoothedPath result)),
                      path_markerEnd = markerEnd props, path_markerStart = markerStart props\<rparr>
                     (Some overlay)))"
proof -
  have routed: "\<not> length (smoothedPath result) \<le> 2"
    using assms(2) by simp
  have mid: "middle (fullPath result) = Inr (fullPath result ! (length (fullPath result) div 2))"
    using assms(3) by (simp add: middle_def div2_less_iff)
  have first_copy:
    "PathFindingEdge fns props =
       Inr (Fragment
              \<lparr>path_style = style props, path_className = ''react-flow__edge-path'',
               path_d =
                 drawEdge (options props)
                   \<lparr>point_x = sourceX props, point_y = sourceY props,
                    point_position = sourcePosition props\<rparr>
                   \<lparr>point_x = targetX props, point_y = targetY props,
                    point_position = targetPosition props\<rparr>
                   (map (\<lambda>cell. gridToGraphPoint fns cell (xMin graph) (yMin graph)
                                  (gridRatio (options props)))
                        (smoothedPath result)),
               path_markerEnd = markerEnd props, path_markerStart = markerStart props\<rparr>
              None)"
    using assms(1) routed mid
    by (simp add: PathFindingEdge_def Let_def source_def target_def graphPath_def
          split: prod.splits)
  have second_copy:
    "\<exists>overlay.
       PathFindingEdge_overlay fns props =
         Inr (Fragment
                \<lparr>path_style = style props, path_className = ''react-flow__edge-path'',
                 path_d =
                   drawEdge (options props)
                     \<lparr>point_x = sourceX props, point_y = sourceY props,
                      point_position = sourcePosition props\<rparr>
                     \<lparr>point_x = targetX props, point_y = targetY props,
                      point_position = targetPosition props\<rparr>
                     (map (\<lambda>cell. gridToGraphPoint fns cell (xMin graph) (yMin graph)
                                    (gridRatio (options props)))
                          (smoothedPath result)),
                 path_markerEnd = markerEnd props, path_markerStart = markerStart props\<rparr>
                (Some overlay))"
    using assms(1) routed mid
    by (simp add: PathFindingEdge_overlay_def Let_def source_def target_def graphPath_def
          split: prod.splits)
  from first_copy second_copy show ?thesis
    by blast
qed

theorem drawEdge_gets_connection_points_witness:
  "2 < length (smoothedPath
         \<lparr>fullPath = [(0, 0), (1, 0), (1, 1)], smoothedPath = [(0, 0), (1, 0), (1, 1)]\<rparr>) \<and>
   fullPath \<lparr>fullPath = [(0, 0), (1, 0), (1, 1)], smoothedPath = [(0, 0), (1, 0), (1, 1)]\<rparr> \<noteq> [] \<and>
   PathFindingEdge sample_functions
        (sample_props
           \<lparr>fullPath = [(0, 0), (1, 0), (1, 1)], smoothedPath = [(0, 0), (1, 0), (1, 1)]\<rparr>)
      = Inr (Fragment
               \<lparr>path_style = (), path_className = ''react-flow__edge-path'',
                path_d = [(3, 4), (0, 0), (10, 0), (10, 10), (25, 14)],
                path_markerEnd = (), path_markerStart = ()\<rparr>
               None) \<and>
   (\<exists>overlay.
      PathFindingEdge_overlay sample_functions
        (sample_props
           \<lparr>fullPath = [(0, 0), (1, 0), (1, 1)], smoothedPath = [(0, 0), (1, 0), (1, 1)]\<rparr>)
      = Inr (Fragment
               \<lparr>path_style = (), path_className = ''react-flow__edge-path'',
                path_d = [(3, 4), (0, 0), (10, 0), (10, 10), (25, 14)],
                path_markerEnd = (), path_markerStart = ()\<rparr>
               (Some overlay)))"
  using drawEdge_gets_connection_points [OF routing_sample,
          of "\<lparr>fullPath = [(0, 0), (1, 0), (1, 1)], smoothedPath = [(0, 0), (1, 0), (1, 1)]\<rparr>"]
  by (simp add: sample_props_def sample_functions_def)

section \<open>Facts about the coordinate mapper\<close>

lemma round_scaled:
  fixes r z :: real
  assumes r: "0 < r"
  shows "\<bar>of_int (round (z / r)) * r - z\<bar> \<le> r / 2"
proof -
  have "\<bar>of_int (round (z / r)) - z / r\<bar> \<le> 1 / 2"
    by (rule of_int_round_abs_le)
  then have "\<bar>of_int (round (z / r)) - z / r\<bar> * r \<le> 1 / 2 * r"
    using r by (simp add: mult_right_mono)
  moreover have "\<bar>of_int (round (z / r)) - z / r\<bar> * r = \<bar>of_int (round (z / r)) * r - z\<bar>"
  proof -
    have "\<bar>of_int (round (z / r)) - z / r\<bar> * r = \<bar>(of_int (round (z / r)) - z / r) * r\<bar>"
      using r by (simp add: abs_mult)
    also have "(of_int (round (z / r)) - z / r) * r = of_int (round (z / r)) * r - z"
      using r by (simp add: left_diff_distrib)
    finally show ?thesis .
  qed
  ultimately show ?thesis
    by simp
qed

text \<open>
  With a positive grid ratio a cell mapped to its canvas point and back is the same cell,
  and a canvas point mapped to its cell and back lands within half a grid ratio of the
  original point on each of the two axes.
\<close>

lemma coordinate_roundtrip:
  assumes "0 < ratio"
  shows "pointToCell (cellToPoint c originX originY ratio) originX originY ratio = c \<and>
         \<bar>fst (cellToPoint (pointToCell p originX originY ratio) originX originY ratio) - fst p\<bar>
            \<le> ratio / 2 \<and>
         \<bar>snd (cellToPoint (pointToCell p originX originY ratio) originX originY ratio) - snd p\<bar>
            \<le> ratio / 2"
proof -
  have cell: "pointToCell (cellToPoint c originX originY ratio) originX originY ratio = c"
    using assms by (simp add: pointToCell_def cellToPoint_def)
  have px: "\<bar>fst (cellToPoint (pointToCell p originX originY ratio) originX originY ratio) - fst p\<bar>
              \<le> ratio / 2"
    using round_scaled [OF assms, of "fst p - originX"]
    by (simp add: pointToCell_def cellToPoint_def algebra_simps)
  have py: "\<bar>snd (cellToPoint (pointToCell p originX originY ratio) originX originY ratio) - snd p\<bar>
              \<le> ratio / 2"
    using round_scaled [OF assms, of "snd p - originY"]
    by (simp add: pointToCell_def cellToPoint_def algebra_simps)
  from cell px py show ?thesis
    by simp
qed

text \<open>
  The bound is one per axis, not one on the distance: with the origin at 0 and a grid ratio
  of 10 the point (4, 4) goes to the cell (0, 0) and back to the point (0, 0), which is
  farther than 5 from (4, 4).
\<close>

lemma roundtrip_distance_exceeds_half_ratio:
  "\<not> distance (cellToPoint (pointToCell (4, 4) 0 0 10) 0 0 10) (4, 4) \<le> 10 / 2"
proof -
  have "pointToCell (4, 4) 0 0 10 = (0, 0)"
    by (simp add: pointToCell_def round_def)
  then have "distance (cellToPoint (pointToCell (4, 4) 0 0 10) 0 0 10) (4, 4) = sqrt 32"
    by (simp add: cellToPoint_def distance_def)
  moreover have "5 < sqrt (32 :: real)"
    by (rule real_less_rsqrt) simp
  ultimately show ?thesis
    by simp
qed

section \<open>Facts about the smoothing step\<close>

lemma compress_nths:
  "compress prev cur rest =
     nths (cur # rest) {i. Suc i = length (cur # rest) \<or> turn (prev # cur # rest) (Suc i)}"
proof (induction rest arbitrary: prev cur)
  case Nil
  show ?case
    by (simp add: nths_Cons turn_def)
next
  case (Cons nxt rest)
  have shift:
    "{j. Suc j \<in> {i. Suc i = length (cur # nxt # rest) \<or> turn (prev # cur # nxt # rest) (Suc i)}}
       = {i. Suc i = length (nxt # rest) \<or> turn (cur # nxt # rest) (Suc i)}"
    by (auto simp: turn_def)
  show ?case
    apply (subst nths_Cons)
    apply (subst shift)
    apply (simp add: Cons.IH turn_def)
    done
qed

lemma smoothing_nths: "smoothing p = nths p (run_endpoints p)"
proof (cases p rule: smoothing.cases)
  case (3 a b rest)
  have shift:
    "{j. Suc j \<in> run_endpoints (a # b # rest)}
       = {i. Suc i = length (b # rest) \<or> turn (a # b # rest) (Suc i)}"
    by (auto simp: run_endpoints_def turn_def)
  show ?thesis
    unfolding 3
    apply (subst nths_Cons)
    apply (subst shift)
    apply (simp add: compress_nths run_endpoints_def)
    done
qed (simp_all add: run_endpoints_def nths_Cons)

lemma compress_nonempty: "compress prev cur rest \<noteq> []"
  by (induction rest arbitrary: prev cur) auto

lemma last_compress: "last (compress prev cur rest) = last (cur # rest)"
  by (induction rest arbitrary: prev cur) (auto simp: compress_nonempty)

lemma hd_smoothing: "p \<noteq> [] \<Longrightarrow> hd (smoothing p) = hd p"
  by (cases p rule: smoothing.cases) auto

lemma last_smoothing: "last (smoothing p) = last p"
  by (cases p rule: smoothing.cases) (auto simp: last_compress compress_nonempty)

lemma turn_in_smoothing: "turn p i \<Longrightarrow> p ! i \<in> set (smoothing p)"
  by (auto simp: smoothing_nths set_nths run_endpoints_def turn_def)

text \<open>
  C4. For every non-empty path, the smoothed path consists of exactly the cells at the
  endpoints of the maximal collinear runs, in their order: the first cell, the turns and
  the last cell. So its first and last cells are those of the full path, and every turn of
  the full path is in it.
\<close>

theorem smoothing_keeps_run_endpoints:
  assumes "p \<noteq> []"
  shows "smoothing p = nths p (run_endpoints p) \<and>
         hd (smoothing p) = hd p \<and>
         last (smoothing p) = last p \<and>
         (\<forall>i. turn p i \<longrightarrow> p ! i \<in> set (smoothing p))"
  using assms
  by (simp add: smoothing_nths [symmetric] hd_smoothing last_smoothing turn_in_smoothing)

theorem smoothing_keeps_run_endpoints_witness:
  "[(0, 0), (1, 0), (2, 0), (2, 1), (2, 2), (3, 2)] \<noteq> ([] :: GridCell list) \<and>
   turn [(0, 0), (1, 0), (2, 0), (2, 1), (2, 2), (3, 2)] 2 \<and>
   (2, 0) \<in> set (smoothing [(0, 0), (1, 0), (2, 0), (2, 1), (2, 2), (3, 2)]) \<and>
   hd (smoothing [(0, 0), (1, 0), (2, 0), (2, 1), (2, 2), (3, 2)]) = (0, 0) \<and>
   last (smoothing [(0, 0), (1, 0), (2, 0), (2, 1), (2, 2), (3, 2)]) = (3, 2) \<and>
   smoothing [(0, 0), (1, 0), (2, 0), (2, 1), (2, 2), (3, 2)] = [(0, 0), (2, 0), (2, 2), (3, 2)]"
proof -
  let ?p = "[(0, 0), (1, 0), (2, 0), (2, 1), (2, 2), (3, 2)] :: GridCell list"
  have ne: "?p \<noteq> []"
    by simp
  have t: "turn ?p 2"
    by (simp add: turn_def collinear_def)
  from smoothing_keeps_run_endpoints [OF ne] t have "?p ! 2 \<in> set (smoothing ?p)"
    by blast
  then have m: "(2, 0) \<in> set (smoothing ?p)"
    by simp
  from smoothing_keeps_run_endpoints [OF ne] have "hd (smoothing ?p) = hd ?p"
    by blast
  then have h: "hd (smoothing ?p) = (0, 0)"
    by simp
  from smoothing_keeps_run_endpoints [OF ne] have "last (smoothing ?p) = last ?p"
    by blast
  then have l: "last (smoothing ?p) = (3, 2)"
    by simp
  have v: "smoothing ?p = [(0, 0), (2, 0), (2, 2), (3, 2)]"
    by (simp add: collinear_def)
  from ne t m h l v show ?thesis
    by blast
qed

section \<open>The label access\<close>

lemma length_compress: "length (compress prev cur rest) \<le> Suc (length rest)"
  by (induction rest arbitrary: prev cur) (auto intro: le_SucI)

lemma length_smoothing: "length (smoothing p) \<le> length p"
  by (cases p rule: smoothing.cases) (auto simp: length_compress)

text \<open>
  C9. The path finder is passed in through the options; under its contract in the
  specification, that the smoothed path is the smoothing of the full path, a smoothed path
  of at least 3 cells (the routed branch) comes from a full path of at least 3 cells. So
  the full path is not empty, the access \<open>fullPath[Math.floor(fullPath.length / 2)]\<close> is in
  range and yields the middle cell, and both copies of the component render without
  throwing.
\<close>

theorem middle_access_in_bounds:
  fixes fns :: "('node, 'boxes, 'grid) Functions"
    and props :: "('a, 'node, 'grid, 'svg) PathFindingEdgeProps"
  assumes "routing fns props = (graph, result)"
    and "smoothedPath result = smoothing (fullPath result)"
    and "3 \<le> length (smoothedPath result)"
  shows "fullPath result \<noteq> [] \<and>
         length (fullPath result) div 2 < length (fullPath result) \<and>
         middle (fullPath result) = Inr (fullPath result ! (length (fullPath result) div 2)) \<and>
         (\<exists>el. PathFindingEdge fns props = Inr el) \<and>
         (\<exists>el. PathFindingEdge_overlay fns props = Inr el)"
proof -
  have "3 \<le> length (fullPath result)"
    using assms(2,3) length_smoothing [of "fullPath result"] by simp
  then have ne: "fullPath result \<noteq> []"
    by auto
  then have inb: "length (fullPath result) div 2 < length (fullPath result)"
    by (simp add: div2_less_iff)
  then have mid: "middle (fullPath result) = Inr (fullPath result ! (length (fullPath result) div 2))"
    by (simp add: middle_def)
  have routed: "\<not> length (smoothedPath result) \<le> 2"
    using assms(3) by simp
  have first_copy: "\<exists>el. PathFindingEdge fns props = Inr el"
    using assms(1) routed mid
    by (auto simp: PathFindingEdge_def Let_def split: sum.splits prod.splits)
  have second_copy: "\<exists>el. PathFindingEdge_overlay fns props = Inr el"
    using assms(1) routed mid
    by (auto simp: PathFindingEdge_overlay_def Let_def split: sum.splits prod.splits)
  from ne inb mid first_copy second_copy show ?thesis
    by blast
qed

theorem middle_access_in_bounds_witness:
  "smoothing [(0, 0), (1, 0), (2, 0), (2, 1)] = [(0, 0), (2, 0), (2, 1)] \<and>
   3 \<le> length [(0, 0), (2, 0), (2, 1 :: int)] \<and>
   middle [(0, 0), (1, 0), (2, 0), (2, 1)] = Inr (2, 0) \<and>
   (\<exists>el. PathFindingEdge sample_functions
       (sample_props
          \<lparr>fullPath = [(0, 0), (1, 0), (2, 0), (2, 1)], smoothedPath = [(0, 0), (2, 0), (2, 1)]\<rparr>)
     = Inr el) \<and>
   (\<exists>el. PathFindingEdge_overlay sample_functions
       (sample_props
          \<lparr>fullPath = [(0, 0), (1, 0), (2, 0), (2, 1)], smoothedPath = [(0, 0), (2, 0), (2, 1)]\<rparr>)
     = Inr el)"
proof -
  let ?r = "\<lparr>fullPath = [(0, 0), (1, 0), (2, 0), (2, 1)], smoothedPath = [(0, 0), (2, 0), (2, 1)]\<rparr>"
  have s: "smoothing [(0, 0), (1, 0), (2, 0), (2, 1)] = [(0, 0), (2, 0), (2, 1)]"
    by (simp add: collinear_def)
  have c: "smoothedPath ?r = smoothing (fullPath ?r)"
    using s by simp
  have l: "3 \<le> length (smoothedPath ?r)"
    by simp
  from middle_access_in_bounds [OF routing_sample c l] s show ?thesis
    by simp
qed

end
